theory Spec2Isabelle
  imports Main
begin

section \<open>Python values, dictionaries and exceptions\<close>

text \<open>
  The renderer \<^verbatim>\<open>salt/renderers/py.py\<close> handles values it never inspects beyond their
  truth value: the loader's objects, the environment and SLS names, the caller's extra
  keywords and the executor's result dictionary. A value is what a Python name is bound
  to; an object that is only passed around is \<open>PyObj\<close> with its identity, so two
  names bound to the same object hold equal values.
\<close>

datatype pyval =
    PyNone
  | PyBool bool
  | PyInt int
  | PyStr string
  | PyList "pyval list"
  | PyDict "(pyval \<times> pyval) list"
  | PyObj nat

text \<open>
  Python's truth value testing, as \<^verbatim>\<open>not x\<close> applies it. An object known only by
  its identity is taken to define neither \<^verbatim>\<open>__bool__\<close> nor \<^verbatim>\<open>__len__\<close>, which makes it
  true.
\<close>

fun truthy :: "pyval \<Rightarrow> bool" where
  "truthy PyNone = False"
| "truthy (PyBool b) = b"
| "truthy (PyInt i) = (i \<noteq> 0)"
| "truthy (PyStr s) = (s \<noteq> [])"
| "truthy (PyList xs) = (xs \<noteq> [])"
| "truthy (PyDict kvs) = (kvs \<noteq> [])"
| "truthy (PyObj n) = True"

text \<open>
  The exceptions a call of \<^verbatim>\<open>render\<close> can end with. \<open>SaltRenderError\<close> carries the
  message object it was constructed with; \<open>PyException\<close> stands for any other exception
  class, by name, that the executor itself may raise.
\<close>

datatype error =
    SaltRenderError pyval
  | TypeError
  | KeyError string
  | PyException string

text \<open>
  A dictionary with string keys (keyword arguments, the executor's result) is an
  association list in insertion order; a key is looked up at its first entry.
\<close>

type_synonym pydict = "(string \<times> pyval) list"

definition dict_get :: "pydict \<Rightarrow> string \<Rightarrow> pyval \<Rightarrow> pyval" where
  \<comment> \<open>\<^verbatim>\<open>d.get(k, dflt)\<close>\<close>
  "dict_get d k dflt = (case map_of d k of None \<Rightarrow> dflt | Some v \<Rightarrow> v)"

definition dict_getitem :: "pydict \<Rightarrow> string \<Rightarrow> error + pyval" where
  \<comment> \<open>\<^verbatim>\<open>d[k]\<close>, which raises \<^verbatim>\<open>KeyError\<close> on a missing key\<close>
  "dict_getitem d k = (case map_of d k of None \<Rightarrow> Inl (KeyError k) | Some v \<Rightarrow> Inr v)"

definition call_kwargs :: "pydict \<Rightarrow> pydict \<Rightarrow> error + pydict" where
  \<comment> \<open>The keyword arguments of a call \<^verbatim>\<open>f(k1=v1, ..., **kws)\<close>: a key of \<^verbatim>\<open>kws\<close> that
      repeats an explicit keyword raises \<^verbatim>\<open>TypeError\<close> (multiple values for a keyword
      argument) before \<^verbatim>\<open>f\<close> is entered.\<close>
  "call_kwargs explicit kws =
     (if \<exists>k \<in> set (map fst kws). k \<in> set (map fst explicit) then Inl TypeError
      else Inr (explicit @ kws))"

section \<open>The renderer\<close>

text \<open>
  The module globals \<^verbatim>\<open>__salt__\<close>, \<^verbatim>\<open>__grains__\<close>, \<^verbatim>\<open>__opts__\<close> and \<^verbatim>\<open>__pillar__\<close>
  that the loader injects into the renderer module.
\<close>

record loader_globals =
  dunder_salt :: pyval
  dunder_grains :: pyval
  dunder_opts :: pyval
  dunder_pillar :: pyval

text \<open>
  \<^verbatim>\<open>salt.utils.templates.py\<close> is not part of the renderer module: it is a parameter. It
  receives the path, the \<^verbatim>\<open>string\<close> flag and its keyword arguments, runs in a world
  \<open>'w\<close> (file system, loaded modules, whatever the script touches) and returns a result
  dictionary or raises, leaving a new world. A script that never returns is outside the
  model: the renderer has no timeout, and a call of the executor is taken to end.
\<close>

type_synonym 'w executor =
  "string \<Rightarrow> bool \<Rightarrow> pydict \<Rightarrow> 'w \<Rightarrow> (error + pydict) \<times> 'w"

definition py_keywords :: "loader_globals \<Rightarrow> pyval \<Rightarrow> pyval \<Rightarrow> pydict" where
  \<comment> \<open>the twelve explicit keywords of the call at lines 145-161, in source order\<close>
  "py_keywords g saltenv sls =
     [(''__salt__'', dunder_salt g),
      (''salt'', dunder_salt g),
      (''__grains__'', dunder_grains g),
      (''grains'', dunder_grains g),
      (''__opts__'', dunder_opts g),
      (''opts'', dunder_opts g),
      (''__pillar__'', dunder_pillar g),
      (''pillar'', dunder_pillar g),
      (''__env__'', saltenv),
      (''saltenv'', saltenv),
      (''__sls__'', sls),
      (''sls'', sls)]"

definition not_a_file :: "string \<Rightarrow> string" where
  \<comment> \<open>\<^verbatim>\<open>"Template {} is not a file!".format(template)\<close> for a string\<close>
  "not_a_file template = ''Template '' @ template @ '' is not a file!''"

definition tmp_data_result :: "pydict \<Rightarrow> error + pyval" where
  \<comment> \<open>lines 162-167: what \<^verbatim>\<open>render\<close> makes of the executor's dictionary\<close>
  "tmp_data_result tmp_data =
     (if \<not> truthy (dict_get tmp_data ''result'' (PyBool False))
      then Inl (SaltRenderError
                 (dict_get tmp_data ''data'' (PyStr ''Unknown render error in py renderer'')))
      else dict_getitem tmp_data ''data'')"

text \<open>
  \<^verbatim>\<open>render(template, saltenv="base", sls="", tmplpath=None, **kws)\<close>. The path
  \<open>tmplpath\<close> is a string or, when the caller leaves it out, \<open>None\<close>. The parameter
  \<open>regular w p\<close> says whether \<open>p\<close> names an existing regular file in the world \<open>w\<close>,
  which is what \<^verbatim>\<open>os.path.isfile\<close> answers for a string; \<^verbatim>\<open>os.path.isfile(None)\<close> raises
  \<^verbatim>\<open>TypeError\<close>. The result pairs the returned value or the exception with the world
  the call leaves.
\<close>

definition render ::
  "('w \<Rightarrow> string \<Rightarrow> bool) \<Rightarrow> 'w executor \<Rightarrow> loader_globals \<Rightarrow>
   pyval \<Rightarrow> pyval \<Rightarrow> pyval \<Rightarrow> string option \<Rightarrow> pydict \<Rightarrow> 'w \<Rightarrow> (error + pyval) \<times> 'w" where
  "render regular py g template saltenv sls tmplpath kws w =
     (let template = tmplpath in
      case template of
        None \<Rightarrow> (Inl TypeError, w)
      | Some path \<Rightarrow>
          if \<not> regular w path
          then (Inl (SaltRenderError (PyStr (not_a_file path))), w)
          else
            (case call_kwargs (py_keywords g saltenv sls) kws of
               Inl e \<Rightarrow> (Inl e, w)
             | Inr ctx \<Rightarrow>
                 (case py path True ctx w of
                    (Inl e, w') \<Rightarrow> (Inl e, w')
                  | (Inr tmp_data, w') \<Rightarrow> (tmp_data_result tmp_data, w'))))"

text \<open>
  Python's binding of the call \<^verbatim>\<open>f(path, string, **kwargs)\<close> to a function defined as
  \<^verbatim>\<open>def f(p1, p2, **kwargs)\<close>: a keyword that names one of the positional parameters is a
  second value for that argument and raises \<^verbatim>\<open>TypeError\<close> before the body runs. The
  parameter names of \<^verbatim>\<open>salt.utils.templates.py\<close> are not part of the renderer module;
  they are the parameter \<open>params\<close>.
\<close>

definition positional_call :: "string list \<Rightarrow> 'w executor \<Rightarrow> 'w executor" where
  "positional_call params body =
     (\<lambda>path string kwargs w.
        if \<exists>k \<in> set (map fst kwargs). k \<in> set params then (Inl TypeError, w)
        else body path string kwargs w)"

text \<open>
  A caller's call \<^verbatim>\<open>render(template, tmplpath=tmplpath, **extra)\<close>, bound to the signature
  of line 135: a key of \<open>extra\<close> named \<^verbatim>\<open>template\<close> or \<^verbatim>\<open>tmplpath\<close> is a second value for an
  argument already given and raises \<^verbatim>\<open>TypeError\<close>; the keys \<^verbatim>\<open>saltenv\<close> and \<^verbatim>\<open>sls\<close> are
  bound to the parameters of these names, which default to \<^verbatim>\<open>"base"\<close> and \<^verbatim>\<open>""\<close>; every
  other key goes to \<^verbatim>\<open>**kws\<close>.
\<close>

definition render_call ::
  "('w \<Rightarrow> string \<Rightarrow> bool) \<Rightarrow> 'w executor \<Rightarrow> loader_globals \<Rightarrow>
   pyval \<Rightarrow> string option \<Rightarrow> pydict \<Rightarrow> 'w \<Rightarrow> (error + pyval) \<times> 'w" where
  "render_call regular py g template tmplpath extra w =
     (if \<exists>k \<in> set (map fst extra). k \<in> set [''template'', ''tmplpath'']
      then (Inl TypeError, w)
      else render regular py g template
             (dict_get extra ''saltenv'' (PyStr ''base''))
             (dict_get extra ''sls'' (PyStr []))
             tmplpath
             (filter (\<lambda>kv. fst kv \<notin> set [''saltenv'', ''sls'']) extra) w)"

section \<open>Example executors and inputs\<close>

text \<open>
  Concrete executors and values on which the theorems below are evaluated: loader objects
  with four distinct identities; an executor without side effects that returns a given
  dictionary; one that also appends each of its invocations to the world, which is then the
  list of calls made; one whose script returns the value it sees under a given name; and
  the highstate data of the module's documentation.
\<close>

definition example_globals :: loader_globals where
  "example_globals =
     \<lparr>dunder_salt = PyObj 1, dunder_grains = PyObj 2,
      dunder_opts = PyObj 3, dunder_pillar = PyObj 4\<rparr>"

definition returning :: "pydict \<Rightarrow> 'w executor" where
  "returning tmp_data = (\<lambda>path string kwargs w. (Inr tmp_data, w))"

definition recording :: "pydict \<Rightarrow> (string \<times> bool \<times> pydict) list executor" where
  "recording tmp_data =
     (\<lambda>path string kwargs w. (Inr tmp_data, w @ [(path, string, kwargs)]))"

definition reading :: "string \<Rightarrow> 'w executor" where
  "reading name =
     (\<lambda>path string kwargs w.
        (Inr [(''result'', PyBool True), (''data'', dict_get kwargs name PyNone)], w))"

definition common_packages :: pyval where
  "common_packages =
     PyDict [(PyStr ''common_packages'',
       PyDict [(PyStr ''pkg.installed'',
         PyList [PyDict [(PyStr ''pkgs'', PyList [PyStr ''curl'', PyStr ''vim''])]])])]"

section \<open>Basic facts\<close>

lemma render_no_path:
  "render regular py g template saltenv sls None kws w = (Inl TypeError, w)"
  by (simp add: render_def)

lemma render_missing:
  "\<not> regular w path \<Longrightarrow>
   render regular py g template saltenv sls (Some path) kws w =
     (Inl (SaltRenderError (PyStr (not_a_file path))), w)"
  by (simp add: render_def)

lemma render_clash:
  "regular w path \<Longrightarrow> call_kwargs (py_keywords g saltenv sls) kws = Inl e \<Longrightarrow>
   render regular py g template saltenv sls (Some path) kws w = (Inl e, w)"
  by (simp add: render_def)

lemma render_executed:
  "regular w path \<Longrightarrow> call_kwargs (py_keywords g saltenv sls) kws = Inr ctx \<Longrightarrow>
   render regular py g template saltenv sls (Some path) kws w =
     (case py path True ctx w of
        (Inl e, w') \<Rightarrow> (Inl e, w')
      | (Inr tmp_data, w') \<Rightarrow> (tmp_data_result tmp_data, w'))"
  by (simp add: render_def)

lemma render_envelope:
  "regular w path \<Longrightarrow> call_kwargs (py_keywords g saltenv sls) kws = Inr ctx \<Longrightarrow>
   py path True ctx w = (Inr tmp_data, w') \<Longrightarrow>
   render regular py g template saltenv sls (Some path) kws w = (tmp_data_result tmp_data, w')"
  by (simp add: render_executed)

lemma py_keywords_names:
  "map fst (py_keywords g saltenv sls) =
     [''__salt__'', ''salt'', ''__grains__'', ''grains'', ''__opts__'', ''opts'',
      ''__pillar__'', ''pillar'', ''__env__'', ''saltenv'', ''__sls__'', ''sls'']"
  by (simp add: py_keywords_def)

lemma map_of_explicit:
  "call_kwargs explicit kws = Inr ctx \<Longrightarrow> map_of explicit k = Some v \<Longrightarrow>
   map_of ctx k = Some v"
  by (auto simp: call_kwargs_def map_add_def split: if_splits)

lemma map_of_append_first:
  "map_of xs k = Some v \<Longrightarrow> map_of (xs @ ys) k = Some v"
  by (simp add: map_add_def)

lemma py_keywords_env:
  "map_of (py_keywords g saltenv sls) ''saltenv'' = Some saltenv"
  "map_of (py_keywords g saltenv sls) ''__env__'' = Some saltenv"
  "map_of (py_keywords g saltenv sls) ''sls'' = Some sls"
  "map_of (py_keywords g saltenv sls) ''__sls__'' = Some sls"
  by (simp_all add: py_keywords_def)

lemma render_call_rebound:
  "\<exists>k \<in> set (map fst extra). k \<in> set [''template'', ''tmplpath''] \<Longrightarrow>
   render_call regular py g template tmplpath extra w = (Inl TypeError, w)"
  by (simp only: render_call_def if_True)

lemma render_call_bound:
  "\<not> (\<exists>k \<in> set (map fst extra). k \<in> set [''template'', ''tmplpath'']) \<Longrightarrow>
   render_call regular py g template tmplpath extra w =
     render regular py g template
       (dict_get extra ''saltenv'' (PyStr ''base'')) (dict_get extra ''sls'' (PyStr []))
       tmplpath (filter (\<lambda>kv. fst kv \<notin> set [''saltenv'', ''sls'']) extra) w"
  by (simp only: render_call_def if_False)

lemma bex_Un_split:
  "(\<exists>k \<in> A. k \<in> B \<union> C) \<longleftrightarrow> (\<exists>k \<in> A. k \<in> B) \<or> (\<exists>k \<in> A. k \<in> C)"
  by blast

lemma clash_generic:
  "T = N \<union> R \<Longrightarrow> N \<inter> R = {} \<Longrightarrow>
   (\<exists>k \<in> fst ` {kv \<in> S. fst kv \<notin> R}. k \<in> T) \<longleftrightarrow> (\<exists>k \<in> fst ` S. k \<in> N)"
  by blast

lemma twelve_split:
  "set [''__salt__'', ''salt'', ''__grains__'', ''grains'', ''__opts__'', ''opts'',
        ''__pillar__'', ''pillar'', ''__env__'', ''saltenv'', ''__sls__'', ''sls''] =
   set [''__salt__'', ''salt'', ''__grains__'', ''grains'', ''__opts__'', ''opts'',
        ''__pillar__'', ''pillar'', ''__env__'', ''__sls__''] \<union> set [''saltenv'', ''sls'']"
  by (simp add: insert_commute)

lemma ten_disjoint:
  "set [''__salt__'', ''salt'', ''__grains__'', ''grains'', ''__opts__'', ''opts'',
        ''__pillar__'', ''pillar'', ''__env__'', ''__sls__''] \<inter> set [''saltenv'', ''sls''] = {}"
  by simp

text \<open>
  Once \<^verbatim>\<open>saltenv\<close> and \<^verbatim>\<open>sls\<close> are bound to the parameters, a key of the caller repeats
  an explicit keyword of the executor call exactly when it is one of the other ten names.
\<close>

lemma kws_clash_iff:
  "(\<exists>k \<in> set (map fst (filter (\<lambda>kv. fst kv \<notin> set [''saltenv'', ''sls'']) extra)).
       k \<in> set (map fst (py_keywords g saltenv sls)))
   \<longleftrightarrow> (\<exists>k \<in> set (map fst extra). k \<in> set
          [''__salt__'', ''salt'', ''__grains__'', ''grains'', ''__opts__'', ''opts'',
           ''__pillar__'', ''pillar'', ''__env__'', ''__sls__''])"
  unfolding py_keywords_names set_map set_filter
  by (rule clash_generic [OF twelve_split ten_disjoint])

text \<open>An executor that never changes the world makes \<open>render\<close> leave it unchanged too.\<close>

lemma snd_render_pure:
  assumes "\<And>p s c u. snd (py p s c u) = u"
  shows "snd (render regular py g template saltenv sls tmplpath kws w) = w"
proof (cases tmplpath)
  case None
  then show ?thesis by (simp add: render_no_path)
next
  case (Some path)
  show ?thesis
  proof (cases "regular w path")
    case False
    with Some show ?thesis by (simp add: render_missing)
  next
    case True
    show ?thesis
    proof (cases "call_kwargs (py_keywords g saltenv sls) kws")
      case (Inl e)
      with Some True show ?thesis by (simp add: render_clash)
    next
      case (Inr ctx)
      obtain x u where run: "py path True ctx w = (x, u)"
        by (cases "py path True ctx w")
      with assms [of path True ctx w] have "u = w" by simp
      with Some True Inr run show ?thesis
        by (cases x) (simp_all add: render_executed)
    qed
  qed
qed

section \<open>The render contract\<close>

subsection \<open>A successful result\<close>

text \<open>
  C1: when the template is a regular file, the call reaches the executor, and the
  dictionary it returns has a truthy \<open>result\<close> (in particular \<open>True\<close>) and a \<open>data\<close>
  entry, \<open>render\<close> returns exactly the value stored under \<open>data\<close>, whatever its shape,
  and leaves the world as the executor left it: the value is handed on as it is, nothing
  is inspected, rebuilt or allocated.
\<close>

theorem render_returns_data:
  assumes "regular w path"
    and "call_kwargs (py_keywords g saltenv sls) kws = Inr ctx"
    and "py path True ctx w = (Inr tmp_data, w')"
    and "map_of tmp_data ''result'' = Some r" and "truthy r"
    and "map_of tmp_data ''data'' = Some d"
  shows "render regular py g template saltenv sls (Some path) kws w = (Inr d, w')"
  using assms by (simp add: render_envelope tmp_data_result_def dict_get_def dict_getitem_def)

theorem render_returns_data_witness:
  "render (\<lambda>w p. True)
     (returning [(''result'', PyBool True), (''data'', common_packages)])
     example_globals (PyStr ''#!py'') (PyStr ''base'') (PyStr ''common'')
     (Some ''/srv/salt/common.sls'') [] (0::nat) = (Inr common_packages, 0)"
  using render_returns_data [where regular = "\<lambda>w p. True" and w = "0::nat"
      and path = "''/srv/salt/common.sls''" and g = example_globals
      and saltenv = "PyStr ''base''" and sls = "PyStr ''common''" and kws = "[]"
      and ctx = "py_keywords example_globals (PyStr ''base'') (PyStr ''common'')"
      and py = "returning [(''result'', PyBool True), (''data'', common_packages)]"
      and tmp_data = "[(''result'', PyBool True), (''data'', common_packages)]"
      and w' = 0 and r = "PyBool True" and d = common_packages
      and template = "PyStr ''#!py''"]
  by (simp add: call_kwargs_def returning_def)

subsection \<open>A failed result\<close>

text \<open>
  C2, as the code has it: when the executor's dictionary has a falsy or missing \<open>result\<close>,
  \<open>render\<close> raises \<open>SaltRenderError\<close> with the value stored under \<open>data\<close> whenever the
  key is present (an empty string included), and with the fixed string
  \<open>Unknown render error in py renderer\<close> only when the key is absent.
\<close>

theorem render_error_message:
  assumes "regular w path"
    and "call_kwargs (py_keywords g saltenv sls) kws = Inr ctx"
    and "py path True ctx w = (Inr tmp_data, w')"
    and "\<not> truthy (dict_get tmp_data ''result'' (PyBool False))"
  shows "render regular py g template saltenv sls (Some path) kws w =
           (Inl (SaltRenderError
              (case map_of tmp_data ''data'' of
                 None \<Rightarrow> PyStr ''Unknown render error in py renderer''
               | Some d \<Rightarrow> d)), w')"
  using assms by (simp add: render_envelope tmp_data_result_def dict_get_def)

theorem render_error_message_witness:
  "render (\<lambda>w p. True)
     (returning [(''result'', PyBool False), (''data'', PyStr ''syntax error at line 4'')])
     example_globals (PyStr ''#!py'') (PyStr ''base'') (PyStr ''common'')
     (Some ''/srv/salt/common.sls'') [] (0::nat) =
   (Inl (SaltRenderError (PyStr ''syntax error at line 4'')), 0)"
  using render_error_message [where regular = "\<lambda>w p. True" and w = "0::nat"
      and path = "''/srv/salt/common.sls''" and g = example_globals
      and saltenv = "PyStr ''base''" and sls = "PyStr ''common''" and kws = "[]"
      and ctx = "py_keywords example_globals (PyStr ''base'') (PyStr ''common'')"
      and py = "returning [(''result'', PyBool False), (''data'', PyStr ''syntax error at line 4'')]"
      and tmp_data = "[(''result'', PyBool False), (''data'', PyStr ''syntax error at line 4'')]"
      and w' = 0 and template = "PyStr ''#!py''"]
  by (simp add: call_kwargs_def returning_def dict_get_def)

text \<open>
  The claim as written fails twice. With \<open>data\<close> present and empty the message is the
  empty string, not a default; and with \<open>data\<close> absent the default is the string with
  \<open>py renderer\<close> in it, not \<open>Unknown render error in renderer\<close>.
\<close>

theorem empty_data_not_defaulted:
  "fst (render (\<lambda>w p. True) (returning [(''result'', PyBool False), (''data'', PyStr [])])
     example_globals (PyStr ''#!py'') (PyStr ''base'') (PyStr ''common'')
     (Some ''/srv/salt/common.sls'') [] (0::nat)) = Inl (SaltRenderError (PyStr []))
   \<and> fst (render (\<lambda>w p. True) (returning [(''result'', PyBool False), (''data'', PyStr [])])
     example_globals (PyStr ''#!py'') (PyStr ''base'') (PyStr ''common'')
     (Some ''/srv/salt/common.sls'') [] (0::nat))
       \<noteq> Inl (SaltRenderError (PyStr ''Unknown render error in renderer''))
   \<and> fst (render (\<lambda>w p. True) (returning [(''result'', PyBool False)])
     example_globals (PyStr ''#!py'') (PyStr ''base'') (PyStr ''common'')
     (Some ''/srv/salt/common.sls'') [] (0::nat))
       = Inl (SaltRenderError (PyStr ''Unknown render error in py renderer''))
   \<and> fst (render (\<lambda>w p. True) (returning [(''result'', PyBool False)])
     example_globals (PyStr ''#!py'') (PyStr ''base'') (PyStr ''common'')
     (Some ''/srv/salt/common.sls'') [] (0::nat))
       \<noteq> Inl (SaltRenderError (PyStr ''Unknown render error in renderer''))"
  by (simp add: render_def call_kwargs_def py_keywords_def returning_def tmp_data_result_def
      dict_get_def)

text \<open>
  C10: a dictionary with no \<open>result\<close> key at all counts as a failure: \<open>render\<close> raises
  \<open>SaltRenderError\<close> with the value under \<open>data\<close> when there is one and the default
  string otherwise; it neither returns the data nor raises anything else.
\<close>

theorem missing_result_key_fails:
  assumes "regular w path"
    and "call_kwargs (py_keywords g saltenv sls) kws = Inr ctx"
    and "py path True ctx w = (Inr tmp_data, w')"
    and "map_of tmp_data ''result'' = None"
  shows "render regular py g template saltenv sls (Some path) kws w =
           (Inl (SaltRenderError
              (dict_get tmp_data ''data'' (PyStr ''Unknown render error in py renderer''))), w')"
  using assms by (simp add: render_envelope tmp_data_result_def dict_get_def)

theorem missing_result_key_fails_witness:
  "render (\<lambda>w p. True) (returning [(''data'', common_packages)])
     example_globals (PyStr ''#!py'') (PyStr ''base'') (PyStr ''common'')
     (Some ''/srv/salt/common.sls'') [] (0::nat) = (Inl (SaltRenderError common_packages), 0)
   \<and> render (\<lambda>w p. True) (returning [])
     example_globals (PyStr ''#!py'') (PyStr ''base'') (PyStr ''common'')
     (Some ''/srv/salt/common.sls'') [] (0::nat) =
       (Inl (SaltRenderError (PyStr ''Unknown render error in py renderer'')), 0)"
  using missing_result_key_fails [where regular = "\<lambda>w p. True" and w = "0::nat"
      and path = "''/srv/salt/common.sls''" and g = example_globals
      and saltenv = "PyStr ''base''" and sls = "PyStr ''common''" and kws = "[]"
      and ctx = "py_keywords example_globals (PyStr ''base'') (PyStr ''common'')"
      and py = "returning [(''data'', common_packages)]"
      and tmp_data = "[(''data'', common_packages)]"
      and w' = 0 and template = "PyStr ''#!py''"]
    missing_result_key_fails [where regular = "\<lambda>w p. True" and w = "0::nat"
      and path = "''/srv/salt/common.sls''" and g = example_globals
      and saltenv = "PyStr ''base''" and sls = "PyStr ''common''" and kws = "[]"
      and ctx = "py_keywords example_globals (PyStr ''base'') (PyStr ''common'')"
      and py = "returning []"
      and tmp_data = "[]"
      and w' = 0 and template = "PyStr ''#!py''"]
  by (simp add: call_kwargs_def returning_def dict_get_def)

subsection \<open>The template gate\<close>

text \<open>
  C3: when \<open>tmplpath\<close> is a string that does not name an existing regular file, \<open>render\<close>
  raises \<open>SaltRenderError\<close> (the one exception class of the module) with the message
  \<open>Template <path> is not a file!\<close>, which contains the offending path.
\<close>

theorem missing_template_error:
  assumes "\<not> regular w path"
  shows "fst (render regular py g template saltenv sls (Some path) kws w) =
           Inl (SaltRenderError (PyStr (''Template '' @ path @ '' is not a file!'')))
         \<and> (\<exists>before after.
               fst (render regular py g template saltenv sls (Some path) kws w) =
                 Inl (SaltRenderError (PyStr (before @ path @ after))))"
proof -
  have "fst (render regular py g template saltenv sls (Some path) kws w) =
      Inl (SaltRenderError (PyStr (''Template '' @ path @ '' is not a file!'')))"
    using assms by (simp add: render_missing not_a_file_def)
  then show ?thesis by blast
qed

theorem missing_template_error_witness:
  "fst (render (\<lambda>w p. False) (returning []) example_globals (PyStr []) (PyStr ''base'')
      (PyStr []) (Some ''/srv/salt/missing.py'') [] (0::nat)) =
     Inl (SaltRenderError (PyStr ''Template /srv/salt/missing.py is not a file!''))"
  using missing_template_error [where regular = "\<lambda>w p. False" and w = "0::nat"
      and path = "''/srv/salt/missing.py''" and py = "returning []" and g = example_globals
      and template = "PyStr []" and saltenv = "PyStr ''base''" and sls = "PyStr []"
      and kws = "[]"]
  by simp

text \<open>
  C4: for such a path the executor is never invoked and no keyword arguments are put
  together for it: the outcome is the same for every executor, every set of loader
  objects, every environment and SLS name and every extra keywords (colliding ones
  included), and the world is left as it was, so an executor that records its
  invocations records none.
\<close>

theorem executor_not_invoked:
  assumes "\<not> regular w path"
  shows "render regular py g template saltenv sls (Some path) kws w =
           render regular py' g' template' saltenv' sls' (Some path) kws' w
         \<and> snd (render regular py g template saltenv sls (Some path) kws w) = w"
  using assms by (simp add: render_missing)

theorem executor_not_invoked_witness:
  "snd (render (\<lambda>w p. False) (recording [(''result'', PyBool True), (''data'', PyDict [])])
      example_globals (PyStr []) (PyStr ''base'') (PyStr [])
      (Some ''/srv/salt/missing.py'') [(''salt'', PyInt 1)] []) = []"
  using executor_not_invoked [where regular = "\<lambda>w p. False" and w = "[]"
      and path = "''/srv/salt/missing.py''"
      and py = "recording [(''result'', PyBool True), (''data'', PyDict [])]"
      and g = example_globals
      and template = "PyStr []" and saltenv = "PyStr ''base''" and sls = "PyStr []"
      and kws = "[(''salt'', PyInt 1)]"]
  by simp

subsection \<open>The keyword arguments of the executor\<close>

text \<open>
  C5, as the code has it, for a caller's call \<^verbatim>\<open>render(template, tmplpath=path, **extra)\<close>
  on a regular file. A key \<^verbatim>\<open>saltenv\<close> or \<^verbatim>\<open>sls\<close> of \<open>extra\<close> is bound to the parameter of
  that name, so the keywords of the executor call carry the caller's value under both the
  alias and the reserved name (\<^verbatim>\<open>saltenv\<close> and \<^verbatim>\<open>__env__\<close>, \<^verbatim>\<open>sls\<close> and \<^verbatim>\<open>__sls__\<close>). A key
  that is one of the other ten built-in names repeats an explicit keyword of the executor
  call, and a key \<^verbatim>\<open>template\<close> or \<^verbatim>\<open>tmplpath\<close> repeats an argument of \<^verbatim>\<open>render\<close>: the call
  ends with \<open>TypeError\<close> and the executor is not invoked. Otherwise the executor is called
  with the twelve bindings followed by the remaining keys, and its body runs unless one of
  these keywords names a positional parameter of the executor.
\<close>

theorem caller_keywords_override:
  assumes "regular w path"
    and "ctx = py_keywords g (dict_get extra ''saltenv'' (PyStr ''base''))
                 (dict_get extra ''sls'' (PyStr []))
               @ filter (\<lambda>kv. fst kv \<notin> set [''saltenv'', ''sls'']) extra"
  shows "(if \<exists>k \<in> set (map fst extra). k \<in> set
             ([''template'', ''tmplpath''] @
              [''__salt__'', ''salt'', ''__grains__'', ''grains'', ''__opts__'', ''opts'',
               ''__pillar__'', ''pillar'', ''__env__'', ''__sls__''])
          then render_call regular (positional_call params body) g template (Some path) extra w
                 = (Inl TypeError, w)
          else render_call regular (positional_call params body) g template (Some path) extra w
                 = (if \<exists>k \<in> set (map fst ctx). k \<in> set params then (Inl TypeError, w)
                    else case body path True ctx w of
                           (Inl e, w') \<Rightarrow> (Inl e, w')
                         | (Inr tmp_data, w') \<Rightarrow> (tmp_data_result tmp_data, w')))
         \<and> (\<forall>v. map_of extra ''saltenv'' = Some v \<longrightarrow>
                map_of ctx ''saltenv'' = Some v \<and> map_of ctx ''__env__'' = Some v)
         \<and> (\<forall>v. map_of extra ''sls'' = Some v \<longrightarrow>
                map_of ctx ''sls'' = Some v \<and> map_of ctx ''__sls__'' = Some v)"
proof -
  let ?saltenv = "dict_get extra ''saltenv'' (PyStr ''base'')"
  let ?sls = "dict_get extra ''sls'' (PyStr [])"
  let ?kws = "filter (\<lambda>kv. fst kv \<notin> set [''saltenv'', ''sls'']) extra"
  let ?rebound = "\<exists>k \<in> set (map fst extra). k \<in> set [''template'', ''tmplpath'']"
  let ?clash = "\<exists>k \<in> set (map fst extra). k \<in> set
      [''__salt__'', ''salt'', ''__grains__'', ''grains'', ''__opts__'', ''opts'',
       ''__pillar__'', ''pillar'', ''__env__'', ''__sls__'']"
  let ?call = "render_call regular (positional_call params body) g template (Some path) extra w"
  let ?run = "if \<exists>k \<in> set (map fst ctx). k \<in> set params then (Inl TypeError, w)
              else case body path True ctx w of
                     (Inl e, w') \<Rightarrow> (Inl e, w')
                   | (Inr tmp_data, w') \<Rightarrow> (tmp_data_result tmp_data, w')"
  have split: "(\<exists>k \<in> set (map fst extra). k \<in> set
             ([''template'', ''tmplpath''] @
              [''__salt__'', ''salt'', ''__grains__'', ''grains'', ''__opts__'', ''opts'',
               ''__pillar__'', ''pillar'', ''__env__'', ''__sls__''])) \<longleftrightarrow> (?rebound \<or> ?clash)"
    unfolding set_append by (rule bex_Un_split)
  have outcome: "if ?rebound \<or> ?clash then ?call = (Inl TypeError, w) else ?call = ?run"
  proof (cases ?rebound)
    case True
    then have "?call = (Inl TypeError, w)" by (rule render_call_rebound)
    with True show ?thesis by (simp only: simp_thms if_True)
  next
    case False
    note bound = render_call_bound [OF False, of regular "positional_call params body" g
        template "Some path" w]
    show ?thesis
    proof (cases ?clash)
      case True
      then have "call_kwargs (py_keywords g ?saltenv ?sls) ?kws = Inl TypeError"
        by (simp only: call_kwargs_def kws_clash_iff if_True)
      with assms(1) have "render regular (positional_call params body) g template ?saltenv ?sls
          (Some path) ?kws w = (Inl TypeError, w)"
        by (rule render_clash)
      then have "?call = (Inl TypeError, w)" by (simp only: bound)
      with True show ?thesis by (simp only: simp_thms if_True)
    next
      case no_clash: False
      then have "call_kwargs (py_keywords g ?saltenv ?sls) ?kws = Inr ctx"
        by (simp only: call_kwargs_def kws_clash_iff if_False assms(2))
      with assms(1) have "render regular (positional_call params body) g template ?saltenv ?sls
          (Some path) ?kws w =
            (case positional_call params body path True ctx w of
               (Inl e, w') \<Rightarrow> (Inl e, w')
             | (Inr tmp_data, w') \<Rightarrow> (tmp_data_result tmp_data, w'))"
        by (rule render_executed)
      moreover have "(case positional_call params body path True ctx w of
               (Inl e, w') \<Rightarrow> (Inl e, w')
             | (Inr tmp_data, w') \<Rightarrow> (tmp_data_result tmp_data, w')) = ?run"
        by (simp add: positional_call_def)
      ultimately have "render regular (positional_call params body) g template ?saltenv ?sls
          (Some path) ?kws w = ?run"
        by (rule trans)
      then have "?call = ?run"
        by (simp only: bound)
      with False no_clash show ?thesis by (simp only: simp_thms if_False)
    qed
  qed
  have env: "map_of ctx ''saltenv'' = Some v \<and> map_of ctx ''__env__'' = Some v"
    if "map_of extra ''saltenv'' = Some v" for v
  proof -
    from that have "?saltenv = v" by (simp add: dict_get_def)
    then show ?thesis
      using py_keywords_env(1,2) [of g ?saltenv ?sls]
      by (simp only: assms(2) map_of_append_first simp_thms)
  qed
  have sls: "map_of ctx ''sls'' = Some v \<and> map_of ctx ''__sls__'' = Some v"
    if "map_of extra ''sls'' = Some v" for v
  proof -
    from that have "?sls = v" by (simp add: dict_get_def)
    then show ?thesis
      using py_keywords_env(3,4) [of g ?saltenv ?sls]
      by (simp only: assms(2) map_of_append_first simp_thms)
  qed
  from env have e: "\<forall>v. map_of extra ''saltenv'' = Some v \<longrightarrow>
      map_of ctx ''saltenv'' = Some v \<and> map_of ctx ''__env__'' = Some v" by blast
  from sls have s: "\<forall>v. map_of extra ''sls'' = Some v \<longrightarrow>
      map_of ctx ''sls'' = Some v \<and> map_of ctx ''__sls__'' = Some v" by blast
  from outcome have "if \<exists>k \<in> set (map fst extra). k \<in> set
             ([''template'', ''tmplpath''] @
              [''__salt__'', ''salt'', ''__grains__'', ''grains'', ''__opts__'', ''opts'',
               ''__pillar__'', ''pillar'', ''__env__'', ''__sls__''])
      then ?call = (Inl TypeError, w) else ?call = ?run"
    by (simp only: split)
  with e s show ?thesis by (intro conjI)
qed

theorem caller_keywords_override_witness:
  "render_call (\<lambda>w p. True) (positional_call [''sfn'', ''string''] (reading ''__env__''))
     example_globals (PyStr ''#!py'') (Some ''/srv/salt/apache/conf.py'')
     [(''saltenv'', PyStr ''dev'')] (0::nat) = (Inr (PyStr ''dev''), 0)
   \<and> render_call (\<lambda>w p. True) (positional_call [''sfn'', ''string''] (reading ''salt''))
     example_globals (PyStr ''#!py'') (Some ''/srv/salt/apache/conf.py'')
     [(''salt'', PyInt 1)] (0::nat) = (Inl TypeError, 0)"
  using caller_keywords_override [where regular = "\<lambda>w p. True" and w = "0::nat"
      and path = "''/srv/salt/apache/conf.py''" and body = "reading ''__env__''"
      and params = "[''sfn'', ''string'']"
      and g = example_globals and template = "PyStr ''#!py''"
      and extra = "[(''saltenv'', PyStr ''dev'')]"
      and ctx = "py_keywords example_globals (PyStr ''dev'') (PyStr [])"]
    caller_keywords_override [where regular = "\<lambda>w p. True" and w = "0::nat"
      and path = "''/srv/salt/apache/conf.py''" and body = "reading ''salt''"
      and params = "[''sfn'', ''string'']"
      and g = example_globals and template = "PyStr ''#!py''"
      and extra = "[(''salt'', PyInt 1)]"
      and ctx = "py_keywords example_globals (PyStr ''base'') (PyStr [])
                   @ [(''salt'', PyInt 1)]"]
  by (simp add: reading_def py_keywords_def tmp_data_result_def dict_get_def dict_getitem_def)

text \<open>
  The claim as written fails: with the extra keyword \<open>salt\<close> the script observes
  nothing, since the call ends with \<open>TypeError\<close> and the recording executor has recorded
  no invocation.
\<close>

theorem override_of_builtin_rejected:
  "render (\<lambda>w p. True) (recording [(''result'', PyBool True), (''data'', PyDict [])])
     example_globals (PyStr ''#!py'') (PyStr ''base'') (PyStr ''apache'')
     (Some ''/srv/salt/apache/conf.py'') [(''salt'', PyInt 1)] [] = (Inl TypeError, [])
   \<and> render_call (\<lambda>w p. True)
       (positional_call [''sfn'', ''string'']
          (recording [(''result'', PyBool True), (''data'', PyDict [])]))
       example_globals (PyStr ''#!py'') (Some ''/srv/salt/apache/conf.py'')
       [(''salt'', PyInt 1)] [] = (Inl TypeError, [])"
  by (simp add: render_call_def render_def call_kwargs_def py_keywords_def dict_get_def)

text \<open>
  C6: whenever the keyword arguments of the executor call are put together, the executor
  is invoked with them, and in them each of the six built-ins is bound under its reserved
  name and under its alias to the same value: the loader's functions, grains, pillar and
  options objects, the environment name and the SLS name.
\<close>

theorem builtin_bindings_aliased:
  assumes "regular w path" and "call_kwargs (py_keywords g saltenv sls) kws = Inr ctx"
  shows "render regular py g template saltenv sls (Some path) kws w =
           (case py path True ctx w of
              (Inl e, w') \<Rightarrow> (Inl e, w')
            | (Inr tmp_data, w') \<Rightarrow> (tmp_data_result tmp_data, w'))
         \<and> map_of ctx ''__salt__'' = Some (dunder_salt g)
         \<and> map_of ctx ''salt'' = Some (dunder_salt g)
         \<and> map_of ctx ''__grains__'' = Some (dunder_grains g)
         \<and> map_of ctx ''grains'' = Some (dunder_grains g)
         \<and> map_of ctx ''__pillar__'' = Some (dunder_pillar g)
         \<and> map_of ctx ''pillar'' = Some (dunder_pillar g)
         \<and> map_of ctx ''__opts__'' = Some (dunder_opts g)
         \<and> map_of ctx ''opts'' = Some (dunder_opts g)
         \<and> map_of ctx ''__env__'' = Some saltenv
         \<and> map_of ctx ''saltenv'' = Some saltenv
         \<and> map_of ctx ''__sls__'' = Some sls
         \<and> map_of ctx ''sls'' = Some sls"
proof -
  have b: "map_of ctx k = Some v" if "map_of (py_keywords g saltenv sls) k = Some v" for k v
    using assms(2) that by (rule map_of_explicit)
  show ?thesis
    using assms by (simp add: render_executed b py_keywords_def)
qed

theorem builtin_bindings_aliased_witness:
  "map_of (py_keywords example_globals (PyStr ''base'') (PyStr ''apache'')
            @ [(''site_name'', PyStr ''example.org'')]) ''__salt__'' = Some (PyObj 1)
   \<and> map_of (py_keywords example_globals (PyStr ''base'') (PyStr ''apache'')
            @ [(''site_name'', PyStr ''example.org'')]) ''salt'' = Some (PyObj 1)
   \<and> render (\<lambda>w p. True) (reading ''salt'') example_globals (PyStr ''#!py'') (PyStr ''base'')
       (PyStr ''apache'') (Some ''/srv/salt/apache/conf.py'')
       [(''site_name'', PyStr ''example.org'')] (0::nat) = (Inr (PyObj 1), 0)"
  using builtin_bindings_aliased [where regular = "\<lambda>w p. True" and w = "0::nat"
      and path = "''/srv/salt/apache/conf.py''" and py = "reading ''salt''"
      and g = example_globals and template = "PyStr ''#!py''" and saltenv = "PyStr ''base''"
      and sls = "PyStr ''apache''" and kws = "[(''site_name'', PyStr ''example.org'')]"
      and ctx = "py_keywords example_globals (PyStr ''base'') (PyStr ''apache'')
            @ [(''site_name'', PyStr ''example.org'')]"]
  by (simp add: call_kwargs_def py_keywords_def example_globals_def reading_def
      tmp_data_result_def dict_get_def dict_getitem_def)

subsection \<open>The outcomes of a call\<close>

text \<open>
  C7, as the code has it: when \<open>tmplpath\<close> is a string, no extra keyword repeats one of
  the twelve explicit keywords, and the executor returns a dictionary that has a \<open>data\<close>
  entry whenever its \<open>result\<close> is truthy, \<open>render\<close> either returns a value or raises
  \<open>SaltRenderError\<close>.
\<close>

theorem render_outcomes:
  assumes "\<not> (\<exists>k \<in> set (map fst kws). k \<in> set (map fst (py_keywords g saltenv sls)))"
    and "py path True (py_keywords g saltenv sls @ kws) w = (Inr tmp_data, w')"
    and "truthy (dict_get tmp_data ''result'' (PyBool False)) \<Longrightarrow>
         map_of tmp_data ''data'' \<noteq> None"
  shows "(\<exists>d. fst (render regular py g template saltenv sls (Some path) kws w) = Inr d)
       \<or> (\<exists>m. fst (render regular py g template saltenv sls (Some path) kws w) =
                Inl (SaltRenderError m))"
proof (cases "regular w path")
  case False
  then show ?thesis by (simp add: render_missing)
next
  case True
  from assms(1)
  have "call_kwargs (py_keywords g saltenv sls) kws = Inr (py_keywords g saltenv sls @ kws)"
    by (simp only: call_kwargs_def if_False)
  with True assms(2)
  have r: "render regular py g template saltenv sls (Some path) kws w =
      (tmp_data_result tmp_data, w')"
    by (simp add: render_envelope)
  show ?thesis
  proof (cases "truthy (dict_get tmp_data ''result'' (PyBool False))")
    case False
    with r show ?thesis by (simp add: tmp_data_result_def)
  next
    case True
    with assms(3) obtain d where "map_of tmp_data ''data'' = Some d" by blast
    with True r show ?thesis by (simp add: tmp_data_result_def dict_getitem_def)
  qed
qed

theorem render_outcomes_witness:
  "fst (render (\<lambda>w p. True)
     (returning [(''result'', PyBool False), (''data'', PyStr ''syntax error at line 4'')])
     example_globals (PyStr ''#!py'') (PyStr ''base'') (PyStr ''common'')
     (Some ''/srv/salt/common.sls'') [(''site_name'', PyStr ''example.org'')] (0::nat)) =
   Inl (SaltRenderError (PyStr ''syntax error at line 4''))"
  using render_outcomes [where regular = "\<lambda>w p. True" and w = "0::nat"
      and path = "''/srv/salt/common.sls''" and g = example_globals
      and saltenv = "PyStr ''base''" and sls = "PyStr ''common''"
      and kws = "[(''site_name'', PyStr ''example.org'')]"
      and py = "returning [(''result'', PyBool False), (''data'', PyStr ''syntax error at line 4'')]"
      and tmp_data = "[(''result'', PyBool False), (''data'', PyStr ''syntax error at line 4'')]"
      and w' = 0 and template = "PyStr ''#!py''"]
  by (simp add: render_def call_kwargs_def py_keywords_def returning_def tmp_data_result_def
      dict_get_def)

text \<open>
  The claim as written fails: an extra keyword named \<open>salt\<close>, and a call that leaves
  \<open>tmplpath\<close> at its default \<open>None\<close>, both end with \<open>TypeError\<close>.
\<close>

theorem other_errors_escape:
  "fst (render (\<lambda>w p. True) (returning [(''result'', PyBool True), (''data'', PyDict [])])
     example_globals (PyStr ''#!py'') (PyStr ''base'') (PyStr ''common'')
     (Some ''/srv/salt/common.sls'') [(''salt'', PyInt 1)] (0::nat)) = Inl TypeError
   \<and> fst (render (\<lambda>w p. True) (returning [(''result'', PyBool True), (''data'', PyDict [])])
     example_globals (PyStr ''#!py'') (PyStr ''base'') (PyStr ''common'')
     None [] (0::nat)) = Inl TypeError"
  by (simp add: render_def call_kwargs_def py_keywords_def)

text \<open>
  C8: with an executor that has no side effects (it never changes the world), a second
  call of \<open>render\<close> with the same arguments, made in the world the first call left,
  gives the same outcome as the first, in particular the same returned data.
\<close>

theorem render_repeatable:
  assumes "\<And>p s c u. snd (py p s c u) = u"
    and "render regular py g template saltenv sls tmplpath kws w = (r, w')"
  shows "render regular py g template saltenv sls tmplpath kws w' = (r, w')"
proof -
  have "snd (render regular py g template saltenv sls tmplpath kws w) = w"
    using assms(1) by (rule snd_render_pure)
  with assms(2) have "w' = w" by simp
  with assms(2) show ?thesis by simp
qed

theorem render_repeatable_witness:
  "render (\<lambda>w p. True) (returning [(''result'', PyBool True), (''data'', common_packages)])
     example_globals (PyStr ''#!py'') (PyStr ''base'') (PyStr ''common'')
     (Some ''/srv/salt/common.sls'') [] (0::nat) = (Inr common_packages, 0)"
  using render_repeatable [where py = "returning [(''result'', PyBool True), (''data'', common_packages)]"
      and regular = "\<lambda>w p. True" and g = example_globals and template = "PyStr ''#!py''"
      and saltenv = "PyStr ''base''" and sls = "PyStr ''common''"
      and tmplpath = "Some ''/srv/salt/common.sls''" and kws = "[]" and w = "0::nat"
      and r = "Inr common_packages" and w' = 0]
  by (simp add: render_def call_kwargs_def py_keywords_def returning_def tmp_data_result_def
      dict_get_def dict_getitem_def)

text \<open>
  C9: the first positional argument \<open>template\<close> has no influence on the outcome: it is
  overwritten by \<open>tmplpath\<close> before it is read, so two calls that differ only in it give
  the same result and leave the same world.
\<close>

theorem render_ignores_template:
  "render regular py g template1 saltenv sls tmplpath kws w =
   render regular py g template2 saltenv sls tmplpath kws w"
  by (simp add: render_def)

end
